theory Spec2Isabelle
  imports Complex_Main
begin

section \<open>Python values, exceptions and strings\<close>

text \<open>
  The client of \<^verbatim>\<open>api_client.py\<close> handles Python values of three origins: what
  \<^verbatim>\<open>response.json()\<close> decodes (any JSON value: \<^verbatim>\<open>None\<close>, a bool, an int, a float,
  a str, a list or a dict with string keys), the dicts it builds itself, and the
  optional arguments it hands to the session. A dict is an association list in insertion
  order. The payload of a float is never inspected by the client.

  A Python \<^verbatim>\<open>str\<close> is a \<open>string\<close>; a \<open>char\<close> stands for a code point below 256.
\<close>

datatype pyval =
    PyNone
  | PyBool bool
  | PyInt int
  | PyFloat real
  | PyStr string
  | PyList "pyval list"
  | PyDict "(string \<times> pyval) list"

text \<open>
  The exceptions that can travel through the client: the class the verbs catch
  (\<^verbatim>\<open>requests.exceptions.RequestException\<close>, with its \<^verbatim>\<open>str(e)\<close>), the class
  \<^verbatim>\<open>_handle_response\<close> catches (\<^verbatim>\<open>json.JSONDecodeError\<close>), the \<^verbatim>\<open>AttributeError\<close> of
  calling \<^verbatim>\<open>.get\<close> on a value that is not a dict, and any exception of another class
  (an \<^verbatim>\<open>OSError\<close>, a \<^verbatim>\<open>RecursionError\<close>, a \<^verbatim>\<open>ValueError\<close>), by its description.
\<close>

datatype exn =
    RequestException string
  | JSONDecodeError
  | AttributeError
  | OtherError string

text \<open>\<^verbatim>\<open>s.lstrip(chars)\<close> and \<^verbatim>\<open>s.rstrip(chars)\<close>: drop every leading (trailing)
  character that occurs in \<open>chars\<close>.\<close>

definition lstrip :: "string \<Rightarrow> string \<Rightarrow> string" where
  "lstrip s chars = dropWhile (\<lambda>c. c \<in> set chars) s"

definition rstrip :: "string \<Rightarrow> string \<Rightarrow> string" where
  "rstrip s chars = rev (dropWhile (\<lambda>c. c \<in> set chars) (rev s))"

text \<open>\<^verbatim>\<open>str.isspace\<close> on the code points below 256: U+0009 to U+000D, U+001C to
  U+001F, the space, U+0085 and U+00A0.\<close>

definition isspace :: "char \<Rightarrow> bool" where
  "isspace c \<longleftrightarrow> c \<in> set [CHR 0x09, CHR 0x0A, CHR 0x0B, CHR 0x0C, CHR 0x0D,
     CHR 0x1C, CHR 0x1D, CHR 0x1E, CHR 0x1F, CHR 0x20, CHR 0x85, CHR 0xA0]"

text \<open>\<^verbatim>\<open>s.strip()\<close>: whitespace removed at both ends.\<close>

definition strip :: "string \<Rightarrow> string" where
  "strip s = rev (dropWhile isspace (rev (dropWhile isspace s)))"

text \<open>\<^verbatim>\<open>str(n)\<close> of an int, as an f-string formats a status code: decimal digits, with
  a minus sign for a negative number.\<close>

fun digits :: "nat \<Rightarrow> string" where
  "digits n =
     (if n < 10 then [''0123456789'' ! n]
      else digits (n div 10) @ [''0123456789'' ! (n mod 10)])"

definition str_int :: "int \<Rightarrow> string" where
  "str_int i = (if i < 0 then CHR ''-'' # digits (nat (- i)) else digits (nat i))"

text \<open>\<^verbatim>\<open>v.get(key, default)\<close>: the lookup of a dict; every other JSON value has no
  attribute \<^verbatim>\<open>get\<close>, and the call raises \<^verbatim>\<open>AttributeError\<close>.\<close>

definition py_get :: "pyval \<Rightarrow> string \<Rightarrow> pyval \<Rightarrow> exn + pyval" where
  "py_get v key dflt =
     (case v of
        PyDict items \<Rightarrow> Inr (case map_of items key of Some x \<Rightarrow> x | None \<Rightarrow> dflt)
      | _ \<Rightarrow> Inl AttributeError)"

section \<open>The session, the response and the environment\<close>

text \<open>
  The \<^verbatim>\<open>requests\<close> library is an external collaborator. A session is known by its
  default headers. A response is known by the three things the client reads of it:
  \<^verbatim>\<open>status_code\<close>, \<^verbatim>\<open>text\<close>, and the outcome of \<^verbatim>\<open>json()\<close>: the decoded value, or
  the exception the call raises. That is \<^verbatim>\<open>json.JSONDecodeError\<close> for a body the decoder
  refuses; the decoder can also fail otherwise (a \<^verbatim>\<open>RecursionError\<close> on deep nesting, a
  \<^verbatim>\<open>ValueError\<close> on an integer of too many digits), and where \<^verbatim>\<open>requests\<close> decodes
  with \<^verbatim>\<open>simplejson\<close> its error is a \<^verbatim>\<open>RequestException\<close> and no
  \<^verbatim>\<open>json.JSONDecodeError\<close>.
\<close>

record session =
  headers :: "string \<rightharpoonup> string"

record response =
  status_code :: int
  resp_text :: string
  resp_json :: "exn + pyval"

datatype http_verb = GET | POST | PUT | DELETE

text \<open>
  The transport is \<^verbatim>\<open>Session.get\<close>, \<^verbatim>\<open>post\<close>, \<^verbatim>\<open>put\<close> and \<^verbatim>\<open>delete\<close>: called on a
  session with a verb, a URL and the keyword arguments \<^verbatim>\<open>params\<close>, \<^verbatim>\<open>data\<close> and
  \<^verbatim>\<open>json\<close> (\<^verbatim>\<open>None\<close> when the verb does not pass one), it returns a response or raises.
\<close>

type_synonym transport =
  "session \<Rightarrow> http_verb \<Rightarrow> string \<Rightarrow> pyval \<Rightarrow> pyval \<Rightarrow> pyval \<Rightarrow> exn + response"

text \<open>
  What \<^verbatim>\<open>_load_token\<close> observes of the file system: what \<^verbatim>\<open>Path.exists()\<close> gives for
  a path, a bool or the exception it raises (an \<^verbatim>\<open>OSError\<close> for a name that is too
  long, or for a directory that may not be searched), and what opening and reading the
  file gives, the contents or the \<^verbatim>\<open>str(e)\<close> of the exception raised.
\<close>

record filesystem =
  path_exists :: "string \<Rightarrow> exn + bool"
  read_text :: "string \<Rightarrow> string + string"

text \<open>\<^verbatim>\<open>os.getenv(key, default)\<close> on the process environment.\<close>

definition getenv :: "(string \<rightharpoonup> string) \<Rightarrow> string \<Rightarrow> string \<Rightarrow> string" where
  "getenv env key dflt = (case env key of Some v \<Rightarrow> v | None \<Rightarrow> dflt)"

section \<open>APIClient\<close>

record client =
  token_file :: string
  base_url :: string
  token :: "string option"
  session :: session

text \<open>
  \<^verbatim>\<open>_load_token\<close> returns the token, or \<^verbatim>\<open>None\<close>, together with the lines it prints.
  The call of \<^verbatim>\<open>exists()\<close> stands before the \<^verbatim>\<open>try\<close> block: what it raises leaves
  \<^verbatim>\<open>_load_token\<close>. What opening and reading raise is caught by \<^verbatim>\<open>except Exception\<close>.
  The quote character of the messages is \<open>CHR 0x27\<close>.
\<close>

definition load_token :: "string \<Rightarrow> filesystem \<Rightarrow> exn + string option \<times> string list" where
  "load_token token_path fs =
     (case path_exists fs token_path of
        Inl e \<Rightarrow> Inl e
      | Inr found \<Rightarrow>
          if \<not> found then
            Inr (None,
              [''Warning: Token file '' @ [CHR 0x27] @ token_path @ [CHR 0x27] @ '' not found.'',
               ''Please create the file with your bearer token.''])
          else
            (case read_text fs token_path of
               Inr contents \<Rightarrow>
                 (let tok = strip contents in
                  if tok = [] then
                    Inr (None,
                      [''Warning: Token file '' @ [CHR 0x27] @ token_path @ [CHR 0x27] @
                       '' is empty.''])
                  else Inr (Some tok, []))
             | Inl e \<Rightarrow> Inr (None, [''Error reading token file: '' @ e])))"

text \<open>
  \<^verbatim>\<open>__init__\<close>. The explicit \<^verbatim>\<open>base_url\<close> argument is \<open>None\<close> when it is left out;
  \<^verbatim>\<open>base_url or os.getenv('API_BASE_URL', '')\<close> takes the environment's value when the
  argument is \<^verbatim>\<open>None\<close> or the empty string. An exception of \<^verbatim>\<open>_load_token\<close> leaves the
  constructor. \<open>fresh\<close> is the new \<^verbatim>\<open>requests.Session()\<close>; \<^verbatim>\<open>if self.token\<close> holds for
  a token that is neither \<^verbatim>\<open>None\<close> nor empty. The result is the client and what the
  constructor printed.
\<close>

definition init ::
  "filesystem \<Rightarrow> (string \<rightharpoonup> string) \<Rightarrow> session \<Rightarrow> string \<Rightarrow> string option
     \<Rightarrow> exn + client \<times> string list"
where
  "init fs env fresh token_file_arg base_url_arg =
     (let base = (case base_url_arg of
                    Some b \<Rightarrow> if b \<noteq> [] then b else getenv env ''API_BASE_URL'' []
                  | None \<Rightarrow> getenv env ''API_BASE_URL'' [])
      in case load_token token_file_arg fs of
           Inl e \<Rightarrow> Inl e
         | Inr (tok, printed) \<Rightarrow>
             (let sess = (case tok of
                            Some t \<Rightarrow>
                              if t \<noteq> [] then
                                fresh\<lparr>headers := (headers fresh)
                                  (''Authorization'' \<mapsto> ''Bearer '' @ t,
                                   ''Content-Type'' \<mapsto> ''application/json'')\<rparr>
                              else fresh
                          | None \<Rightarrow> fresh)
              in Inr (\<lparr>token_file = token_file_arg, base_url = base, token = tok,
                       session = sess\<rparr>,
                      printed)))"

text \<open>\<^verbatim>\<open>_handle_response\<close>: the \<^verbatim>\<open>try\<close> branch when \<^verbatim>\<open>response.json()\<close> returns, the
  \<^verbatim>\<open>except json.JSONDecodeError\<close> branch when it raises that; any other exception of
  \<^verbatim>\<open>response.json()\<close> leaves the function.\<close>

definition handle_response :: "client \<Rightarrow> response \<Rightarrow> exn + pyval" where
  "handle_response self response =
     (case resp_json response of
        Inr json_response \<Rightarrow>
          (if status_code response \<ge> 400 then
             (case py_get json_response ''message'' (PyStr ''Unknown error'') of
                Inl e \<Rightarrow> Inl e
              | Inr message \<Rightarrow>
                  Inr (PyDict
                    [(''error'', PyStr (''HTTP '' @ str_int (status_code response))),
                     (''message'', message),
                     (''details'', json_response)]))
           else Inr json_response)
      | Inl JSONDecodeError \<Rightarrow>
          (if status_code response \<ge> 400 then
             Inr (PyDict
               [(''error'', PyStr (''HTTP '' @ str_int (status_code response))),
                (''message'',
                 PyStr (if resp_text response \<noteq> [] then resp_text response
                        else ''Unknown error''))])
           else Inr (PyDict [(''content'', PyStr (resp_text response))]))
      | Inl e \<Rightarrow> Inl e)"

text \<open>
  The \<^verbatim>\<open>try\<close> block that \<^verbatim>\<open>get\<close>, \<^verbatim>\<open>post\<close>, \<^verbatim>\<open>put\<close> and \<^verbatim>\<open>delete\<close> share word for
  word, applied to the outcome of the session call: a response goes to
  \<^verbatim>\<open>_handle_response\<close>; a \<^verbatim>\<open>RequestException\<close> raised inside the block is turned into an
  error dict; any other exception leaves the verb.
\<close>

definition try_request :: "client \<Rightarrow> exn + response \<Rightarrow> exn + pyval" where
  "try_request self outcome =
     (case (case outcome of
              Inl e \<Rightarrow> Inl e
            | Inr response \<Rightarrow> handle_response self response) of
        Inl (RequestException e) \<Rightarrow> Inr (PyDict [(''error'', PyStr (''Request failed: '' @ e))])
      | Inl e \<Rightarrow> Inl e
      | Inr result \<Rightarrow> Inr result)"

definition get :: "client \<Rightarrow> transport \<Rightarrow> string \<Rightarrow> pyval \<Rightarrow> exn + pyval" where
  "get self send endpoint params =
     (let url = rstrip (base_url self) ''/'' @ ''/'' @ lstrip endpoint ''/''
      in try_request self (send (session self) GET url params PyNone PyNone))"

definition post :: "client \<Rightarrow> transport \<Rightarrow> string \<Rightarrow> pyval \<Rightarrow> pyval \<Rightarrow> exn + pyval" where
  "post self send endpoint data json_data =
     (let url = rstrip (base_url self) ''/'' @ ''/'' @ lstrip endpoint ''/''
      in try_request self (send (session self) POST url PyNone data json_data))"

definition put :: "client \<Rightarrow> transport \<Rightarrow> string \<Rightarrow> pyval \<Rightarrow> pyval \<Rightarrow> exn + pyval" where
  "put self send endpoint data json_data =
     (let url = rstrip (base_url self) ''/'' @ ''/'' @ lstrip endpoint ''/''
      in try_request self (send (session self) PUT url PyNone data json_data))"

definition delete :: "client \<Rightarrow> transport \<Rightarrow> string \<Rightarrow> exn + pyval" where
  "delete self send endpoint =
     (let url = rstrip (base_url self) ''/'' @ ''/'' @ lstrip endpoint ''/''
      in try_request self (send (session self) DELETE url PyNone PyNone PyNone))"

section \<open>Fixtures of the test suite\<close>

text \<open>
  \<^verbatim>\<open>test_api_client.py\<close> patches the session's method with a \<^verbatim>\<open>Mock\<close> that has one
  outcome whatever it is called with: a \<^verbatim>\<open>return_value\<close> (a response) or a
  \<^verbatim>\<open>side_effect\<close> (an exception).
\<close>

definition mock_session :: "exn + response \<Rightarrow> transport" where
  "mock_session outcome = (\<lambda>session verb url params data json. outcome)"

text \<open>A server that answers every call with status 200 and the requested URL as a
  plain-text body.\<close>

definition echo_url :: transport where
  "echo_url = (\<lambda>session verb url params data json.
     Inr \<lparr>status_code = 200, resp_text = url, resp_json = Inl JSONDecodeError\<rparr>)"

text \<open>The fixture of \<^verbatim>\<open>setUp\<close>: a token file holding \<^verbatim>\<open>test_token_12345\<close>, and the
  client the tests build on it with the base URL \<^verbatim>\<open>https://api.test.com\<close>.\<close>

definition test_fs :: filesystem where
  "test_fs = \<lparr>path_exists = (\<lambda>p. Inr (p = ''token.txt'')),
              read_text = (\<lambda>p. Inr ''test_token_12345'')\<rparr>"

definition test_client :: client where
  "test_client =
     \<lparr>token_file = ''token.txt'', base_url = ''https://api.test.com'',
      token = Some ''test_token_12345'',
      session = \<lparr>headers = [''Authorization'' \<mapsto> ''Bearer test_token_12345'',
                              ''Content-Type'' \<mapsto> ''application/json'']\<rparr>\<rparr>"

text \<open>Three more file systems: one whose token file holds only whitespace, one whose
  token file exists and cannot be read, and one where \<^verbatim>\<open>exists()\<close> raises for a name
  longer than 255 characters, as \<^verbatim>\<open>os.stat\<close> does with \<^verbatim>\<open>ENAMETOOLONG\<close>.\<close>

definition blank_fs :: filesystem where
  "blank_fs = \<lparr>path_exists = (\<lambda>p. Inr (p = ''token.txt'')),
               read_text = (\<lambda>p. Inr [CHR '' '', CHR 0x0A])\<rparr>"

definition unreadable_fs :: filesystem where
  "unreadable_fs = \<lparr>path_exists = (\<lambda>p. Inr (p = ''token.txt'')),
                    read_text = (\<lambda>p. Inl ''[Errno 13] Permission denied'')\<rparr>"

definition long_name_fs :: filesystem where
  "long_name_fs =
     \<lparr>path_exists = (\<lambda>p. if 255 < length p
                           then Inl (OtherError ''OSError: [Errno 36] File name too long'')
                           else Inr (p = ''token.txt'')),
      read_text = (\<lambda>p. Inr ''test_token_12345'')\<rparr>"

text \<open>The responses the tests mock: a JSON object with status 200, a JSON object with
  status 404, and a body that is not JSON.\<close>

definition success_response :: response where
  "success_response =
     \<lparr>status_code = 200, resp_text = ''{\"status\": \"success\", \"data\": [1, 2, 3]}'',
      resp_json = Inr (PyDict [(''status'', PyStr ''success''),
                               (''data'', PyList [PyInt 1, PyInt 2, PyInt 3])])\<rparr>"

definition not_found_response :: response where
  "not_found_response =
     \<lparr>status_code = 404, resp_text = ''{\"message\": \"Not found\"}'',
      resp_json = Inr (PyDict [(''message'', PyStr ''Not found'')])\<rparr>"

definition plain_text_response :: response where
  "plain_text_response =
     \<lparr>status_code = 200, resp_text = ''Plain text response'',
      resp_json = Inl JSONDecodeError\<rparr>"

text \<open>Two responses whose body is the JSON array \<^verbatim>\<open>[1, 2, 3]\<close>, with status 200 and
  with status 500.\<close>

definition array_response :: response where
  "array_response =
     \<lparr>status_code = 200, resp_text = ''[1, 2, 3]'',
      resp_json = Inr (PyList [PyInt 1, PyInt 2, PyInt 3])\<rparr>"

definition array_error_response :: response where
  "array_error_response =
     \<lparr>status_code = 500, resp_text = ''[1, 2, 3]'',
      resp_json = Inr (PyList [PyInt 1, PyInt 2, PyInt 3])\<rparr>"

text \<open>A response with status 200 whose body is 100000 opening brackets: the decoder
  gives up with a \<^verbatim>\<open>RecursionError\<close>.\<close>

definition deep_response :: response where
  "deep_response =
     \<lparr>status_code = 200, resp_text = replicate 100000 CHR ''['',
      resp_json = Inl (OtherError ''RecursionError: maximum recursion depth exceeded'')\<rparr>"

text \<open>A second client, with no token and another base URL.\<close>

definition other_client :: client where
  "other_client =
     \<lparr>token_file = ''missing.txt'', base_url = ''https://other.test.com/'',
      token = None, session = \<lparr>headers = Map.empty\<rparr>\<rparr>"

text \<open>The URL expression of the four verbs, for the statements below.\<close>

abbreviation request_url :: "client \<Rightarrow> string \<Rightarrow> string" where
  "request_url self endpoint \<equiv> rstrip (base_url self) ''/'' @ ''/'' @ lstrip endpoint ''/''"

section \<open>Stripping\<close>

text \<open>Stripping one character \<open>c\<close> at the front removes a run of \<open>c\<close> and leaves a
  string that does not start with \<open>c\<close>; at the back likewise.\<close>

lemma lstrip_decomp:
  "\<exists>m. s = replicate m c @ lstrip s [c] \<and> (lstrip s [c] = [] \<or> hd (lstrip s [c]) \<noteq> c)"
proof (induction s)
  case Nil
  show ?case by (simp add: lstrip_def)
next
  case (Cons x xs)
  show ?case
  proof (cases "x = c")
    case True
    from Cons obtain m where m: "xs = replicate m c @ lstrip xs [c]"
      and h: "lstrip xs [c] = [] \<or> hd (lstrip xs [c]) \<noteq> c" by blast
    have "lstrip (x # xs) [c] = lstrip xs [c]" using True by (simp add: lstrip_def)
    moreover have "x # xs = replicate (Suc m) c @ lstrip xs [c]" using True m by simp
    ultimately show ?thesis using h by metis
  next
    case False
    then have "lstrip (x # xs) [c] = x # xs" by (simp add: lstrip_def)
    then show ?thesis using False by (intro exI[of _ 0]) simp
  qed
qed

lemma rstrip_rev: "rstrip s cs = rev (lstrip (rev s) cs)"
  by (simp add: rstrip_def lstrip_def)

lemma rstrip_decomp:
  "\<exists>n. s = rstrip s [c] @ replicate n c \<and> (rstrip s [c] = [] \<or> last (rstrip s [c]) \<noteq> c)"
proof -
  obtain m where m: "rev s = replicate m c @ lstrip (rev s) [c]"
    and h: "lstrip (rev s) [c] = [] \<or> hd (lstrip (rev s) [c]) \<noteq> c"
    using lstrip_decomp [of "rev s" c] by blast
  have "s = rev (lstrip (rev s) [c]) @ replicate m c"
    using arg_cong [OF m, of rev] by simp
  moreover have "rstrip s [c] = [] \<or> last (rstrip s [c]) \<noteq> c"
    using h by (auto simp: rstrip_rev last_rev)
  ultimately show ?thesis unfolding rstrip_rev by blast
qed

section \<open>The fixture client\<close>

text \<open>The constructor builds the fixture client from the fixture file system, and prints
  nothing.\<close>

lemma init_test_client:
  "init test_fs Map.empty \<lparr>headers = Map.empty\<rparr> ''token.txt'' (Some ''https://api.test.com'')
     = Inr (test_client, [])"
  by (simp add: test_client_def init_def load_token_def test_fs_def strip_def isspace_def)

section \<open>URL construction\<close>

text \<open>
  Claim C5. For every base URL and every endpoint, \<^verbatim>\<open>get\<close>, \<^verbatim>\<open>post\<close>, \<^verbatim>\<open>put\<close> and
  \<^verbatim>\<open>delete\<close> call the session with the URL \<open>b @ ''/'' @ e\<close>, where \<open>b\<close> is the base URL
  without its run of trailing slashes (\<open>b\<close> does not end with a slash) and \<open>e\<close> is the
  endpoint without its run of leading slashes (\<open>e\<close> does not start with one): exactly one
  slash stands between the two, whatever slashes the arguments carry.
\<close>

theorem verbs_request_url:
  "\<exists>b e n m.
     base_url self = b @ replicate n CHR ''/'' \<and> (b = [] \<or> last b \<noteq> CHR ''/'') \<and>
     endpoint = replicate m CHR ''/'' @ e \<and> (e = [] \<or> hd e \<noteq> CHR ''/'') \<and>
     (\<forall>send params data json_data.
        get self send endpoint params =
          try_request self (send (session self) GET (b @ ''/'' @ e) params PyNone PyNone) \<and>
        post self send endpoint data json_data =
          try_request self (send (session self) POST (b @ ''/'' @ e) PyNone data json_data) \<and>
        put self send endpoint data json_data =
          try_request self (send (session self) PUT (b @ ''/'' @ e) PyNone data json_data) \<and>
        delete self send endpoint =
          try_request self (send (session self) DELETE (b @ ''/'' @ e) PyNone PyNone PyNone))"
proof -
  obtain n where n: "base_url self = rstrip (base_url self) ''/'' @ replicate n CHR ''/''"
    and b: "rstrip (base_url self) ''/'' = [] \<or> last (rstrip (base_url self) ''/'') \<noteq> CHR ''/''"
    using rstrip_decomp [of "base_url self" "CHR ''/''"] by blast
  obtain m where m: "endpoint = replicate m CHR ''/'' @ lstrip endpoint ''/''"
    and e: "lstrip endpoint ''/'' = [] \<or> hd (lstrip endpoint ''/'') \<noteq> CHR ''/''"
    using lstrip_decomp [of endpoint "CHR ''/''"] by blast
  have verbs: "\<forall>send params data json_data.
        get self send endpoint params =
          try_request self (send (session self) GET (request_url self endpoint) params PyNone PyNone) \<and>
        post self send endpoint data json_data =
          try_request self (send (session self) POST (request_url self endpoint) PyNone data json_data) \<and>
        put self send endpoint data json_data =
          try_request self (send (session self) PUT (request_url self endpoint) PyNone data json_data) \<and>
        delete self send endpoint =
          try_request self (send (session self) DELETE (request_url self endpoint) PyNone PyNone PyNone)"
    by (simp add: get_def post_def put_def delete_def)
  show ?thesis
    using n b m e verbs by blast
qed

text \<open>The case of \<^verbatim>\<open>test_url_construction\<close>: the base URL \<^verbatim>\<open>https://api.test.com/\<close> and
  the endpoint \<^verbatim>\<open>/api/test\<close> give \<^verbatim>\<open>https://api.test.com/api/test\<close>.\<close>

lemma url_construction_example:
  "get (test_client\<lparr>base_url := ''https://api.test.com/''\<rparr>) echo_url ''/api/test'' PyNone
     = Inr (PyDict [(''content'', PyStr ''https://api.test.com/api/test'')])"
  by (simp add: get_def try_request_def handle_response_def echo_url_def rstrip_def lstrip_def)

text \<open>
  Claim C9, as stated, fails: with an empty base URL the request URL would be the endpoint
  as the caller gave it. The f-string still writes its slash: for the endpoint
  \<^verbatim>\<open>users\<close> the session is asked for \<^verbatim>\<open>/users\<close>, which the echoing server reports.
\<close>

theorem empty_base_url_counterexample:
  "base_url (test_client\<lparr>base_url := []\<rparr>) = [] \<and>
   get (test_client\<lparr>base_url := []\<rparr>) echo_url ''users'' PyNone
     = Inr (PyDict [(''content'', PyStr ''/users'')]) \<and>
   get (test_client\<lparr>base_url := []\<rparr>) echo_url ''users'' PyNone
     \<noteq> try_request (test_client\<lparr>base_url := []\<rparr>)
         (echo_url (session (test_client\<lparr>base_url := []\<rparr>)) GET ''users'' PyNone PyNone PyNone)"
  by (simp add: get_def try_request_def handle_response_def echo_url_def rstrip_def lstrip_def)

text \<open>
  Claim C9, amended. When the base URL is empty, every verb calls the session with the
  URL made of one slash and the endpoint without its leading slashes; this is the
  endpoint as given exactly when the endpoint starts with one slash and no more.
\<close>

theorem verbs_empty_base_url:
  assumes "base_url self = []"
  shows "\<exists>e m.
     endpoint = replicate m CHR ''/'' @ e \<and> (e = [] \<or> hd e \<noteq> CHR ''/'') \<and>
     ((''/'' @ e = endpoint) = (m = 1)) \<and>
     (\<forall>send params data json_data.
        get self send endpoint params =
          try_request self (send (session self) GET (''/'' @ e) params PyNone PyNone) \<and>
        post self send endpoint data json_data =
          try_request self (send (session self) POST (''/'' @ e) PyNone data json_data) \<and>
        put self send endpoint data json_data =
          try_request self (send (session self) PUT (''/'' @ e) PyNone data json_data) \<and>
        delete self send endpoint =
          try_request self (send (session self) DELETE (''/'' @ e) PyNone PyNone PyNone))"
proof -
  obtain m where m: "endpoint = replicate m CHR ''/'' @ lstrip endpoint ''/''"
    and e: "lstrip endpoint ''/'' = [] \<or> hd (lstrip endpoint ''/'') \<noteq> CHR ''/''"
    using lstrip_decomp [of endpoint "CHR ''/''"] by blast
  have "length endpoint = m + length (lstrip endpoint ''/'')"
    using arg_cong [OF m, of length] by simp
  then have "(''/'' @ lstrip endpoint ''/'' = endpoint) = (m = 1)"
    using m by (auto dest: arg_cong [of _ _ length])
  moreover have "rstrip (base_url self) ''/'' = []"
    using assms by (simp add: rstrip_def)
  ultimately show ?thesis
    using m e by (intro exI [of _ "lstrip endpoint ''/''"] exI [of _ m]) (simp add: get_def post_def put_def delete_def)
qed

theorem verbs_empty_base_url_witness:
  "base_url (test_client\<lparr>base_url := []\<rparr>) = [] \<and>
   get (test_client\<lparr>base_url := []\<rparr>) echo_url ''/api/test'' PyNone
     = Inr (PyDict [(''content'', PyStr ''/api/test'')])"
  using verbs_empty_base_url [of "test_client\<lparr>base_url := []\<rparr>" "''/api/test''"]
  by (simp add: get_def try_request_def handle_response_def echo_url_def rstrip_def lstrip_def)

section \<open>Response normalization\<close>

lemma verbs_unfold:
  "get self send endpoint params =
     try_request self (send (session self) GET (request_url self endpoint) params PyNone PyNone)"
  "post self send endpoint data json_data =
     try_request self (send (session self) POST (request_url self endpoint) PyNone data json_data)"
  "put self send endpoint data json_data =
     try_request self (send (session self) PUT (request_url self endpoint) PyNone data json_data)"
  "delete self send endpoint =
     try_request self (send (session self) DELETE (request_url self endpoint) PyNone PyNone PyNone)"
  by (simp_all add: get_def post_def put_def delete_def)

text \<open>The four verb calls of a client on an endpoint, each with the outcome of its
  session call, are all \<open>try_request\<close> of that outcome.\<close>

lemma verb_call_try_request:
  assumes "(res, outcome) \<in>
      {(get self send endpoint params,
          send (session self) GET (request_url self endpoint) params PyNone PyNone),
       (post self send endpoint data json_data,
          send (session self) POST (request_url self endpoint) PyNone data json_data),
       (put self send endpoint data json_data,
          send (session self) PUT (request_url self endpoint) PyNone data json_data),
       (delete self send endpoint,
          send (session self) DELETE (request_url self endpoint) PyNone PyNone PyNone)}"
  shows "res = try_request self outcome"
  using assms by (auto simp: verbs_unfold)

text \<open>Neither \<^verbatim>\<open>_handle_response\<close> nor the \<^verbatim>\<open>try\<close> block reads \<^verbatim>\<open>self\<close>.\<close>

lemma handle_response_any_client: "handle_response ca r = handle_response cb r"
  by (simp add: handle_response_def)

lemma try_request_any_client: "try_request ca outcome = try_request cb outcome"
  by (cases outcome) (simp_all add: try_request_def handle_response_any_client [of ca _ cb])

lemma try_request_RequestException:
  "try_request self (Inl (RequestException d)) =
     Inr (PyDict [(''error'', PyStr (''Request failed: '' @ d))])"
  by (simp add: try_request_def)

text \<open>A response below 400: the decoded value as it is, or the text under
  \<^verbatim>\<open>content\<close> when \<^verbatim>\<open>json()\<close> raises \<^verbatim>\<open>json.JSONDecodeError\<close>.\<close>

lemma try_request_value_below_400:
  "status_code r < 400 \<Longrightarrow> resp_json r = Inr v \<Longrightarrow> try_request self (Inr r) = Inr v"
  by (simp add: try_request_def handle_response_def)

lemma try_request_not_json_below_400:
  "status_code r < 400 \<Longrightarrow> resp_json r = Inl JSONDecodeError \<Longrightarrow>
   try_request self (Inr r) = Inr (PyDict [(''content'', PyStr (resp_text r))])"
  by (simp add: try_request_def handle_response_def)

text \<open>The error shapes of status 400 and above, for a body that decodes to a JSON object
  and for a body the decoder refuses.\<close>

lemma try_request_error_object:
  "400 \<le> status_code r \<Longrightarrow> resp_json r = Inr (PyDict items) \<Longrightarrow>
   try_request self (Inr r) =
     Inr (PyDict
       [(''error'', PyStr (''HTTP '' @ str_int (status_code r))),
        (''message'', case map_of items ''message'' of
                        Some m \<Rightarrow> m | None \<Rightarrow> PyStr ''Unknown error''),
        (''details'', PyDict items)])"
  by (simp add: try_request_def handle_response_def py_get_def)

lemma try_request_error_not_json:
  "400 \<le> status_code r \<Longrightarrow> resp_json r = Inl JSONDecodeError \<Longrightarrow>
   try_request self (Inr r) =
     Inr (PyDict
       [(''error'', PyStr (''HTTP '' @ str_int (status_code r))),
        (''message'', PyStr (if resp_text r = [] then ''Unknown error'' else resp_text r))])"
  by (simp add: try_request_def handle_response_def)

text \<open>What \<^verbatim>\<open>json()\<close> raises beyond \<^verbatim>\<open>json.JSONDecodeError\<close>: a \<^verbatim>\<open>RequestException\<close>
  is caught by the verb, anything else leaves it.\<close>

lemma try_request_json_RequestException:
  "resp_json r = Inl (RequestException d) \<Longrightarrow>
   try_request self (Inr r) = Inr (PyDict [(''error'', PyStr (''Request failed: '' @ d))])"
  by (simp add: try_request_def handle_response_def)

lemma try_request_json_OtherError:
  "resp_json r = Inl (OtherError d) \<Longrightarrow> try_request self (Inr r) = Inl (OtherError d)"
  by (simp add: try_request_def handle_response_def)

lemma try_request_mapping:
  assumes "(\<exists>d. outcome = Inl (RequestException d)) \<or>
     (\<exists>r. outcome = Inr r \<and>
        ((\<exists>d. resp_json r = Inl (RequestException d)) \<or>
         resp_json r = Inl JSONDecodeError \<or>
         (\<exists>items. resp_json r = Inr (PyDict items))))"
  shows "\<exists>items. try_request self outcome = Inr (PyDict items)"
proof -
  from assms consider
      (raised) d where "outcome = Inl (RequestException d)"
    | (json_raised) r d where "outcome = Inr r" "resp_json r = Inl (RequestException d)"
    | (not_json) r where "outcome = Inr r" "resp_json r = Inl JSONDecodeError"
    | (object) r items where "outcome = Inr r" "resp_json r = Inr (PyDict items)"
    by blast
  then show ?thesis
  proof cases
    case raised
    then show ?thesis by (simp add: try_request_RequestException)
  next
    case json_raised
    then show ?thesis by (simp add: try_request_json_RequestException)
  next
    case not_json
    then show ?thesis
      by (cases "status_code r < 400")
         (simp_all add: try_request_not_json_below_400 try_request_error_not_json)
  next
    case object
    then show ?thesis
      by (cases "status_code r < 400")
         (simp_all add: try_request_value_below_400 try_request_error_object)
  qed
qed

text \<open>
  Claim C1, as stated, fails: every verb call would return a mapping, whatever the
  transport's outcome. A response with status 200 whose body is the JSON array
  \<^verbatim>\<open>[1, 2, 3]\<close> decodes to a list, and \<^verbatim>\<open>get\<close> returns that list, which is no mapping.
\<close>

theorem verb_returns_list_counterexample:
  "get test_client (mock_session (Inr array_response)) ''/api/test'' PyNone
     = Inr (PyList [PyInt 1, PyInt 2, PyInt 3]) \<and>
   \<not> (\<exists>items. get test_client (mock_session (Inr array_response)) ''/api/test'' PyNone
          = Inr (PyDict items))"
  by (simp add: get_def try_request_def handle_response_def mock_session_def
      array_response_def)

text \<open>
  Claim C1, amended. Take a verb call, \<^verbatim>\<open>get\<close>, \<^verbatim>\<open>post\<close>, \<^verbatim>\<open>put\<close> or \<^verbatim>\<open>delete\<close>, with
  the outcome of its session call. When the session raises a \<^verbatim>\<open>RequestException\<close>, or
  returns a response whose \<^verbatim>\<open>json()\<close> raises \<^verbatim>\<open>json.JSONDecodeError\<close> or a
  \<^verbatim>\<open>RequestException\<close> or returns a JSON object, the call returns a mapping and nothing
  is raised. When the session returns a response with a status below 400 whose
  \<^verbatim>\<open>json()\<close> returns a value, the call returns exactly that value, which is a mapping
  only if the body is a JSON object, and nothing is raised.
\<close>

theorem verbs_return_mapping:
  assumes "(res, outcome) \<in>
      {(get self send endpoint params,
          send (session self) GET (request_url self endpoint) params PyNone PyNone),
       (post self send endpoint data json_data,
          send (session self) POST (request_url self endpoint) PyNone data json_data),
       (put self send endpoint data json_data,
          send (session self) PUT (request_url self endpoint) PyNone data json_data),
       (delete self send endpoint,
          send (session self) DELETE (request_url self endpoint) PyNone PyNone PyNone)}"
  shows
    "((\<exists>d. outcome = Inl (RequestException d)) \<or>
      (\<exists>r. outcome = Inr r \<and>
         ((\<exists>d. resp_json r = Inl (RequestException d)) \<or>
          resp_json r = Inl JSONDecodeError \<or>
          (\<exists>items. resp_json r = Inr (PyDict items))))
      \<longrightarrow> (\<exists>items. res = Inr (PyDict items))) \<and>
     (\<forall>r v. outcome = Inr r \<and> status_code r < 400 \<and> resp_json r = Inr v \<longrightarrow> res = Inr v)"
proof -
  have res: "res = try_request self outcome"
    using assms by (rule verb_call_try_request)
  show ?thesis
    unfolding res
    using try_request_mapping [of outcome self] try_request_value_below_400 [of _ _ self]
    by blast
qed

theorem verbs_return_mapping_witness:
  "resp_json not_found_response = Inr (PyDict [(''message'', PyStr ''Not found'')]) \<and>
   (\<exists>items. get test_client (mock_session (Inr not_found_response)) ''/api/nonexistent'' PyNone
      = Inr (PyDict items)) \<and>
   status_code array_response < 400 \<and>
   resp_json array_response = Inr (PyList [PyInt 1, PyInt 2, PyInt 3]) \<and>
   delete test_client (mock_session (Inr array_response)) ''/api/test''
     = Inr (PyList [PyInt 1, PyInt 2, PyInt 3])"
  using
    verbs_return_mapping [where self = test_client
      and send = "mock_session (Inr not_found_response)"
      and endpoint = "''/api/nonexistent''" and params = PyNone
      and data = PyNone and json_data = PyNone
      and outcome = "Inr not_found_response"
      and res = "get test_client (mock_session (Inr not_found_response))
                   ''/api/nonexistent'' PyNone"]
    verbs_return_mapping [where self = test_client
      and send = "mock_session (Inr array_response)"
      and endpoint = "''/api/test''" and params = PyNone
      and data = PyNone and json_data = PyNone
      and outcome = "Inr array_response"
      and res = "delete test_client (mock_session (Inr array_response)) ''/api/test''"]
  by (simp add: mock_session_def not_found_response_def array_response_def)

text \<open>
  Claim C2 at a failing input. A response with status 500 whose body is the JSON array
  \<^verbatim>\<open>[1, 2, 3]\<close>: the body decodes, the claim promises the error mapping with the message
  \<^verbatim>\<open>Unknown error\<close>, and the code calls \<^verbatim>\<open>.get\<close> on a list; the \<^verbatim>\<open>AttributeError\<close> is
  caught by neither \<^verbatim>\<open>except\<close> clause and leaves the verb.
\<close>

theorem error_body_not_object_raises:
  "get test_client (mock_session (Inr array_error_response)) ''/api/test'' PyNone
     = Inl AttributeError"
  by (simp add: get_def try_request_def handle_response_def py_get_def mock_session_def
      array_error_response_def)

text \<open>
  Claim C3 at a failing input. A response with status 200 whose body is 100000 opening
  brackets: the body does not decode as JSON, the claim promises
  \<^verbatim>\<open>{'content': text}\<close>, and \<^verbatim>\<open>response.json()\<close> raises a \<^verbatim>\<open>RecursionError\<close>, which is
  no \<^verbatim>\<open>json.JSONDecodeError\<close> and no \<^verbatim>\<open>RequestException\<close>: it is caught by neither
  \<^verbatim>\<open>except\<close> clause and leaves the verb.
\<close>

theorem deep_body_raises:
  "get test_client (mock_session (Inr deep_response)) ''/api/test'' PyNone
     = Inl (OtherError ''RecursionError: maximum recursion depth exceeded'')"
  by (simp add: get_def try_request_def handle_response_def mock_session_def
      deep_response_def)

text \<open>The cases of the tests: a JSON object with status 200 is passed through, a body
  the decoder refuses is returned under \<^verbatim>\<open>content\<close>, and a JSON object with status 404
  gives the error mapping.\<close>

lemma get_success_example:
  "get test_client (mock_session (Inr success_response)) ''/api/test'' PyNone
     = Inr (PyDict [(''status'', PyStr ''success''),
                    (''data'', PyList [PyInt 1, PyInt 2, PyInt 3])])"
  by (simp add: verbs_unfold mock_session_def try_request_value_below_400 success_response_def)

lemma get_plain_text_example:
  "get test_client (mock_session (Inr plain_text_response)) ''/api/text'' PyNone
     = Inr (PyDict [(''content'', PyStr ''Plain text response'')])"
  by (simp add: verbs_unfold mock_session_def try_request_not_json_below_400
      plain_text_response_def)

lemma get_not_found_example:
  "get test_client (mock_session (Inr not_found_response)) ''/api/nonexistent'' PyNone
     = Inr (PyDict [(''error'', PyStr ''HTTP 404''), (''message'', PyStr ''Not found''),
                    (''details'', PyDict [(''message'', PyStr ''Not found'')])])"
  by (simp add: verbs_unfold mock_session_def try_request_error_object
      not_found_response_def str_int_def)

text \<open>
  Claim C4. When the session call of a verb raises a \<^verbatim>\<open>RequestException\<close> (the class of
  the connection, timeout, DNS and TLS failures of \<^verbatim>\<open>requests\<close>) with description \<open>d\<close>,
  the verb returns \<^verbatim>\<open>{'error': 'Request failed: d'}\<close>; it raises nothing.
\<close>

theorem verbs_catch_request_exception:
  "(send (session self) GET (request_url self endpoint) params PyNone PyNone
      = Inl (RequestException d) \<longrightarrow>
      get self send endpoint params = Inr (PyDict [(''error'', PyStr (''Request failed: '' @ d))])) \<and>
   (send (session self) POST (request_url self endpoint) PyNone data json_data
      = Inl (RequestException d) \<longrightarrow>
      post self send endpoint data json_data
        = Inr (PyDict [(''error'', PyStr (''Request failed: '' @ d))])) \<and>
   (send (session self) PUT (request_url self endpoint) PyNone data json_data
      = Inl (RequestException d) \<longrightarrow>
      put self send endpoint data json_data
        = Inr (PyDict [(''error'', PyStr (''Request failed: '' @ d))])) \<and>
   (send (session self) DELETE (request_url self endpoint) PyNone PyNone PyNone
      = Inl (RequestException d) \<longrightarrow>
      delete self send endpoint = Inr (PyDict [(''error'', PyStr (''Request failed: '' @ d))]))"
  by (simp add: verbs_unfold try_request_RequestException)

theorem verbs_catch_request_exception_witness:
  "mock_session (Inl (RequestException ''Connection refused'')) (session test_client) POST
     (request_url test_client ''/api/users'') PyNone PyNone
     (PyDict [(''name'', PyStr ''Test User'')])
     = Inl (RequestException ''Connection refused'') \<and>
   post test_client (mock_session (Inl (RequestException ''Connection refused''))) ''/api/users''
     PyNone (PyDict [(''name'', PyStr ''Test User'')])
     = Inr (PyDict [(''error'', PyStr ''Request failed: Connection refused'')])"
  using verbs_catch_request_exception [of "mock_session (Inl (RequestException ''Connection refused''))"
      test_client "''/api/users''" _ "''Connection refused''" PyNone
      "PyDict [(''name'', PyStr ''Test User'')]"]
  by (simp add: mock_session_def)

text \<open>
  Claim C10. Take two verb calls, of any two clients (whatever their tokens and base
  URLs), on any endpoints and arguments, each paired with the outcome of its session
  call. If both outcomes are responses with the same status code and the same body (the
  same text, and the same outcome of \<^verbatim>\<open>json()\<close>), the two calls have the same result.
\<close>

theorem normalization_depends_only_on_response:
  assumes "(resa, outa) \<in>
      {(get ca sa ea pa, sa (session ca) GET (request_url ca ea) pa PyNone PyNone),
       (post ca sa ea da ja, sa (session ca) POST (request_url ca ea) PyNone da ja),
       (put ca sa ea da ja, sa (session ca) PUT (request_url ca ea) PyNone da ja),
       (delete ca sa ea, sa (session ca) DELETE (request_url ca ea) PyNone PyNone PyNone)}"
    and "(resb, outb) \<in>
      {(get cb sb eb pb, sb (session cb) GET (request_url cb eb) pb PyNone PyNone),
       (post cb sb eb db jb, sb (session cb) POST (request_url cb eb) PyNone db jb),
       (put cb sb eb db jb, sb (session cb) PUT (request_url cb eb) PyNone db jb),
       (delete cb sb eb, sb (session cb) DELETE (request_url cb eb) PyNone PyNone PyNone)}"
    and "outa = Inr ra" and "outb = Inr rb"
    and "status_code ra = status_code rb"
    and "resp_text ra = resp_text rb"
    and "resp_json ra = resp_json rb"
  shows "resa = resb"
proof -
  have "ra = rb"
    using assms(5-7) by (intro response.equality) simp_all
  then have same: "outa = outb"
    using assms(3,4) by simp
  have "resa = try_request ca outa"
    using assms(1) by (rule verb_call_try_request)
  moreover have "resb = try_request cb outb"
    using assms(2) by (rule verb_call_try_request)
  ultimately show ?thesis
    using same try_request_any_client [of ca outb cb] by simp
qed

theorem normalization_depends_only_on_response_witness:
  "get test_client (mock_session (Inr not_found_response)) ''/api/nonexistent'' PyNone
     = delete other_client (mock_session (Inr not_found_response)) ''users/7''"
  using normalization_depends_only_on_response [where
        ra = not_found_response and rb = not_found_response
        and outa = "Inr not_found_response" and outb = "Inr not_found_response"
        and ca = test_client and cb = other_client
        and sa = "mock_session (Inr not_found_response)"
        and sb = "mock_session (Inr not_found_response)"
        and ea = "''/api/nonexistent''" and eb = "''users/7''"
        and pa = PyNone and da = PyNone and ja = PyNone
        and pb = PyNone and db = PyNone and jb = PyNone
        and resa = "get test_client (mock_session (Inr not_found_response))
                      ''/api/nonexistent'' PyNone"
        and resb = "delete other_client (mock_session (Inr not_found_response)) ''users/7''"]
  by (simp add: mock_session_def)

section \<open>Construction\<close>

text \<open>\<^verbatim>\<open>strip\<close> cuts a run of whitespace at each end, and what is left neither starts nor
  ends with whitespace.\<close>

lemma strip_decomp:
  "\<exists>a b. s = a @ strip s @ b \<and> (\<forall>c\<in>set a. isspace c) \<and> (\<forall>c\<in>set b. isspace c) \<and>
     (strip s = [] \<or> (\<not> isspace (hd (strip s)) \<and> \<not> isspace (last (strip s))))"
proof -
  define a where "a = takeWhile isspace s"
  define d where "d = dropWhile isspace s"
  define b where "b = rev (takeWhile isspace (rev d))"
  have t: "strip s = rev (dropWhile isspace (rev d))"
    by (simp add: strip_def d_def)
  have "d = rev (takeWhile isspace (rev d) @ dropWhile isspace (rev d))"
    by simp
  also have "\<dots> = rev (dropWhile isspace (rev d)) @ rev (takeWhile isspace (rev d))"
    by (rule rev_append)
  finally have d: "d = strip s @ b"
    unfolding t b_def .
  have "s = a @ d"
    by (simp add: a_def d_def)
  then have s: "s = a @ strip s @ b"
    using d by simp
  have wa: "\<forall>c\<in>set a. isspace c"
    unfolding a_def by (auto dest: set_takeWhileD)
  have wb: "\<forall>c\<in>set b. isspace c"
    unfolding b_def by (auto dest: set_takeWhileD)
  have ends: "\<not> isspace (hd (strip s)) \<and> \<not> isspace (last (strip s))" if ne: "strip s \<noteq> []"
  proof
    have "d \<noteq> []" using ne t by auto
    then have "\<not> isspace (hd d)" unfolding d_def by (rule hd_dropWhile)
    moreover have "hd d = hd (strip s)" using d ne by simp
    ultimately show "\<not> isspace (hd (strip s))" by simp
    have ne': "dropWhile isspace (rev d) \<noteq> []" using ne t by simp
    then have "\<not> isspace (hd (dropWhile isspace (rev d)))" by (rule hd_dropWhile)
    moreover have "last (strip s) = hd (dropWhile isspace (rev d))"
      using ne' by (simp add: t last_rev)
    ultimately show "\<not> isspace (last (strip s))" by simp
  qed
  show ?thesis using s wa wb ends by blast
qed


text \<open>The constructor raises exactly what \<^verbatim>\<open>exists()\<close> raises, and returns a client
  whenever \<^verbatim>\<open>exists()\<close> returns.\<close>

lemma init_raises_iff:
  "init fs env fresh tf bu = Inl e \<longleftrightarrow> path_exists fs tf = Inl e"
  by (auto simp: init_def load_token_def Let_def split: sum.splits prod.splits if_splits)

lemma init_returns:
  "path_exists fs tf = Inr found \<Longrightarrow> \<exists>c printed. init fs env fresh tf bu = Inr (c, printed)"
  using init_raises_iff [of fs env fresh tf bu]
  by (cases "init fs env fresh tf bu") auto

lemma init_token_eq:
  "init fs env fresh tf bu = Inr (c, printed) \<Longrightarrow> load_token tf fs = Inr (token c, printed)"
  by (auto simp: init_def Let_def split: sum.splits prod.splits)

lemma load_token_nonempty: "load_token tf fs = Inr (tok, printed) \<Longrightarrow> tok \<noteq> Some []"
  by (auto simp: load_token_def Let_def split: sum.splits if_splits)

text \<open>
  Where \<^verbatim>\<open>exists()\<close> returns, the token is as claim C6 says: absent when the file does
  not exist, absent when opening or reading it raises, and otherwise the contents \<open>t\<close>
  left after trimming the whitespace \<open>a\<close> and \<open>b\<close> at the two ends, absent when \<open>t\<close> is
  empty.
\<close>

lemma init_token:
  assumes "init fs env fresh tf bu = Inr (c, printed)"
  shows
    "(path_exists fs tf = Inr False \<longrightarrow> token c = None) \<and>
     (path_exists fs tf = Inr True \<longrightarrow>
        (\<forall>e. read_text fs tf = Inl e \<longrightarrow> token c = None) \<and>
        (\<forall>s. read_text fs tf = Inr s \<longrightarrow>
           (\<exists>a b t. s = a @ t @ b \<and> (\<forall>x\<in>set a. isspace x) \<and> (\<forall>x\<in>set b. isspace x) \<and>
              (t = [] \<or> (\<not> isspace (hd t) \<and> \<not> isspace (last t))) \<and>
              token c = (if t = [] then None else Some t))))"
proof -
  have tok: "load_token tf fs = Inr (token c, printed)"
    using assms by (rule init_token_eq)
  have "\<exists>a b t. s = a @ t @ b \<and> (\<forall>x\<in>set a. isspace x) \<and> (\<forall>x\<in>set b. isspace x) \<and>
            (t = [] \<or> (\<not> isspace (hd t) \<and> \<not> isspace (last t))) \<and>
            token c = (if t = [] then None else Some t)"
    if "path_exists fs tf = Inr True" "read_text fs tf = Inr s" for s
  proof -
    have "token c = (if strip s = [] then None else Some (strip s))"
      using that tok by (auto simp: load_token_def Let_def split: if_splits)
    then show ?thesis using strip_decomp [of s] by blast
  qed
  moreover have "token c = None" if "path_exists fs tf = Inr False"
    using that tok by (simp add: load_token_def)
  moreover have "token c = None" if "path_exists fs tf = Inr True" "read_text fs tf = Inl e" for e
    using that tok by (simp add: load_token_def)
  ultimately show ?thesis by blast
qed

text \<open>The constructor on a token file of whitespace, on one that cannot be read, and on
  a path that does not exist.\<close>

lemma init_blank_example:
  "init blank_fs Map.empty \<lparr>headers = Map.empty\<rparr> ''token.txt'' None =
     Inr (\<lparr>token_file = ''token.txt'', base_url = [], token = None,
            session = \<lparr>headers = Map.empty\<rparr>\<rparr>,
          [''Warning: Token file '' @ [CHR 0x27] @ ''token.txt'' @ [CHR 0x27] @ '' is empty.''])"
  by (simp add: init_def load_token_def blank_fs_def strip_def isspace_def getenv_def)

lemma init_unreadable_example:
  "init unreadable_fs Map.empty \<lparr>headers = Map.empty\<rparr> ''token.txt'' None =
     Inr (\<lparr>token_file = ''token.txt'', base_url = [], token = None,
            session = \<lparr>headers = Map.empty\<rparr>\<rparr>,
          [''Error reading token file: [Errno 13] Permission denied''])"
  by (simp add: init_def load_token_def unreadable_fs_def getenv_def)

lemma init_missing_example:
  "init test_fs Map.empty \<lparr>headers = Map.empty\<rparr> ''nonexistent_token.txt'' None =
     Inr (\<lparr>token_file = ''nonexistent_token.txt'', base_url = [], token = None,
            session = \<lparr>headers = Map.empty\<rparr>\<rparr>,
          [''Warning: Token file '' @ [CHR 0x27] @ ''nonexistent_token.txt'' @ [CHR 0x27] @
             '' not found.'',
           ''Please create the file with your bearer token.''])"
  by (simp add: init_def load_token_def test_fs_def getenv_def)

text \<open>
  Claim C6 at a failing input. The token file path is 5000 characters long: the claim
  promises a client whose token is absent, and \<^verbatim>\<open>token_path.exists()\<close>, which stands
  before the \<^verbatim>\<open>try\<close> block of \<^verbatim>\<open>_load_token\<close>, raises an \<^verbatim>\<open>OSError\<close> that leaves
  \<^verbatim>\<open>_load_token\<close> and the constructor.
\<close>

theorem long_token_path_raises:
  "init long_name_fs Map.empty \<lparr>headers = Map.empty\<rparr> (replicate 5000 CHR ''a'') None
     = Inl (OtherError ''OSError: [Errno 36] File name too long'')"
  by (simp add: init_def load_token_def long_name_fs_def)

text \<open>
  Claim C7. After a construction, when a token was loaded the session's headers hold
  \<^verbatim>\<open>Authorization\<close> with the value \<^verbatim>\<open>Bearer\<close>, a space and the token, and
  \<^verbatim>\<open>Content-Type\<close> with the value \<^verbatim>\<open>application/json\<close>, and every other header is as
  the new session had it. When no token was loaded the session is the new session
  untouched: it has no \<^verbatim>\<open>Authorization\<close> header, a new session having none.
\<close>

theorem init_session_headers:
  assumes "init fs env fresh tf bu = Inr (c, printed)"
  shows
    "(\<forall>t. token c = Some t \<longrightarrow>
        headers (session c) ''Authorization'' = Some (''Bearer '' @ t) \<and>
        headers (session c) ''Content-Type'' = Some ''application/json'' \<and>
        (\<forall>k. k \<noteq> ''Authorization'' \<and> k \<noteq> ''Content-Type'' \<longrightarrow>
           headers (session c) k = headers fresh k)) \<and>
     (token c = None \<longrightarrow>
        session c = fresh \<and>
        (headers fresh ''Authorization'' = None \<longrightarrow>
           headers (session c) ''Authorization'' = None))"
proof -
  obtain tok where tok: "load_token tf fs = Inr (tok, printed)"
    using assms by (auto simp: init_def Let_def split: sum.splits prod.splits)
  then have "tok \<noteq> Some []" by (rule load_token_nonempty)
  then show ?thesis
    using assms tok by (auto simp: init_def Let_def split: option.splits)
qed

theorem init_session_headers_witness:
  "init test_fs Map.empty \<lparr>headers = Map.empty\<rparr> ''token.txt'' (Some ''https://api.test.com'')
     = Inr (test_client, []) \<and>
   token test_client = Some ''test_token_12345'' \<and>
   headers (session test_client) ''Authorization'' = Some ''Bearer test_token_12345'' \<and>
   headers (session test_client) ''Content-Type'' = Some ''application/json'' \<and>
   token (fst (projr (init test_fs Map.empty \<lparr>headers = Map.empty\<rparr>
                        ''nonexistent_token.txt'' None))) = None \<and>
   headers (session (fst (projr (init test_fs Map.empty \<lparr>headers = Map.empty\<rparr>
                        ''nonexistent_token.txt'' None)))) ''Authorization'' = None"
  using
    init_session_headers [OF init_test_client]
    init_session_headers [OF init_missing_example]
  by (simp add: init_test_client init_missing_example) (simp add: test_client_def)

text \<open>
  Claim C8, as stated, fails: the stored base URL would be the explicit argument whenever
  one is given. Python's \<^verbatim>\<open>or\<close> takes its right operand for the empty string too: with
  the explicit argument \<^verbatim>\<open>''\<close> and \<^verbatim>\<open>API_BASE_URL\<close> set, the stored base URL is the
  environment's value, not the argument.
\<close>

theorem init_base_url_counterexample:
  "init test_fs [''API_BASE_URL'' \<mapsto> ''https://env.test.com''] \<lparr>headers = Map.empty\<rparr>
      ''token.txt'' (Some [])
     = Inr (test_client\<lparr>base_url := ''https://env.test.com''\<rparr>, []) \<and>
   base_url (test_client\<lparr>base_url := ''https://env.test.com''\<rparr>) \<noteq> []"
  by (simp add: test_client_def init_def load_token_def test_fs_def strip_def isspace_def
      getenv_def)

text \<open>
  Claim C8, amended. In every construction, the stored base URL is the explicit argument
  whenever one is given and is not empty; when the argument is left out or is the empty
  string, it is the value of \<^verbatim>\<open>API_BASE_URL\<close> in the environment, and the empty string
  when that is not set.
\<close>

theorem init_base_url:
  assumes "init fs env fresh tf bu = Inr (c, printed)"
  shows
    "(\<forall>b. bu = Some b \<and> b \<noteq> [] \<longrightarrow> base_url c = b) \<and>
     (bu = None \<or> bu = Some [] \<longrightarrow>
        (\<forall>v. env ''API_BASE_URL'' = Some v \<longrightarrow> base_url c = v) \<and>
        (env ''API_BASE_URL'' = None \<longrightarrow> base_url c = []))"
  using assms
  by (auto simp: init_def Let_def getenv_def split: sum.splits prod.splits option.splits)

theorem init_base_url_witness:
  "init test_fs Map.empty \<lparr>headers = Map.empty\<rparr> ''token.txt'' (Some ''https://api.test.com'')
     = Inr (test_client, []) \<and>
   base_url test_client = ''https://api.test.com'' \<and>
   init test_fs [''API_BASE_URL'' \<mapsto> ''https://env.test.com''] \<lparr>headers = Map.empty\<rparr>
      ''token.txt'' None
     = Inr (test_client\<lparr>base_url := ''https://env.test.com''\<rparr>, []) \<and>
   base_url (test_client\<lparr>base_url := ''https://env.test.com''\<rparr>) = ''https://env.test.com'' \<and>
   base_url (fst (projr (init test_fs Map.empty \<lparr>headers = Map.empty\<rparr>
                           ''nonexistent_token.txt'' None))) = []"
  using
    init_base_url [OF init_test_client]
    init_base_url [of test_fs "[''API_BASE_URL'' \<mapsto> ''https://env.test.com'']"
      "\<lparr>headers = Map.empty\<rparr>" "''token.txt''" None
      "test_client\<lparr>base_url := ''https://env.test.com''\<rparr>" "[]"]
    init_base_url [OF init_missing_example]
  by (simp add: init_test_client init_missing_example)
     (simp add: test_client_def init_def load_token_def test_fs_def strip_def isspace_def
        getenv_def)

end
